theory Spec2Isabelle
  imports Main "HOL-Library.Word" "HOL-Library.Multiset"
begin

text \<open>
  The client of the medical chat assistant: the session store, the HTTP gateway with
  its interceptors, the auth and chat services, the conversation view with its
  optimistic send, and the history view. Each TypeScript function is a function on an
  explicit state; the answers of the backend are arguments.
\<close>

section \<open>JavaScript strings\<close>

text \<open>
  A JavaScript string is a sequence of UTF-16 code units. \<open>js\<close> turns an ASCII literal
  into such a string, so that paths and header names stay readable.
\<close>

type_synonym jsstring = "16 word list"

definition js :: "string \<Rightarrow> jsstring" where
  "js s = map of_char s"

text \<open>
  \<open>String.prototype.trim\<close> removes the code units of the ECMAScript productions
  WhiteSpace and LineTerminator from both ends.
\<close>

definition isWhiteSpace :: "16 word \<Rightarrow> bool" where
  "isWhiteSpace c \<longleftrightarrow>
     c \<in> {0x0009, 0x000A, 0x000B, 0x000C, 0x000D, 0x0020, 0x00A0, 0x1680,
           0x2028, 0x2029, 0x202F, 0x205F, 0x3000, 0xFEFF}
     \<or> (0x2000 \<le> c \<and> c \<le> 0x200A)"

definition trim :: "jsstring \<Rightarrow> jsstring" where
  "trim s = rev (dropWhile isWhiteSpace (rev (dropWhile isWhiteSpace s)))"

text \<open>Truthiness of a string (\<open>!s\<close> is true for the empty string) and of \<open>string | null\<close>.\<close>

definition truthy :: "jsstring \<Rightarrow> bool" where
  "truthy s \<longleftrightarrow> s \<noteq> []"

definition truthy_opt :: "jsstring option \<Rightarrow> bool" where
  "truthy_opt v = (case v of None \<Rightarrow> False | Some s \<Rightarrow> truthy s)"


section \<open>Session store (store/auth.ts)\<close>

record AuthState =
  token :: "jsstring option"
  username :: "jsstring option"
  isAuthenticated :: bool

text \<open>The record that \<open>partialize\<close> hands to the persist middleware: token and username only.\<close>

record Persisted =
  p_token :: "jsstring option"
  p_username :: "jsstring option"

definition initialAuthState :: AuthState where
  "initialAuthState = \<lparr>token = None, username = None, isAuthenticated = False\<rparr>"

definition partialize :: "AuthState \<Rightarrow> Persisted" where
  "partialize state = \<lparr>p_token = token state, p_username = username state\<rparr>"

text \<open>
  The persist middleware of zustand, as far as the store uses it: the record named
  \<open>auth-storage\<close> is absent or holds the last partialized state; at creation of the
  store the persisted fields are merged over the initial state
  (\<open>{...currentState, ...persistedState}\<close>); every \<open>set\<close> writes the partialized
  state back.
\<close>

record StoreWorld =
  store :: AuthState
  storage :: "Persisted option"

definition rehydrate :: "Persisted option \<Rightarrow> AuthState" where
  "rehydrate rec =
     (case rec of
        None \<Rightarrow> initialAuthState
      | Some p \<Rightarrow> initialAuthState\<lparr>token := p_token p, username := p_username p\<rparr>)"

definition createStore :: "Persisted option \<Rightarrow> StoreWorld" where
  "createStore rec = \<lparr>store = rehydrate rec, storage = rec\<rparr>"

definition set_state ::
  "(AuthState \<Rightarrow> AuthState) \<Rightarrow> 'a StoreWorld_scheme \<Rightarrow> 'a StoreWorld_scheme" where
  "set_state f w = w\<lparr>store := f (store w), storage := Some (partialize (f (store w)))\<rparr>"

definition login :: "jsstring \<Rightarrow> jsstring \<Rightarrow> 'a StoreWorld_scheme \<Rightarrow> 'a StoreWorld_scheme" where
  "login tok name w =
     set_state (\<lambda>s. s\<lparr>token := Some tok, username := Some name, isAuthenticated := True\<rparr>) w"

definition logout :: "'a StoreWorld_scheme \<Rightarrow> 'a StoreWorld_scheme" where
  "logout w = set_state (\<lambda>s. s\<lparr>token := None, username := None, isAuthenticated := False\<rparr>) w"

definition loadFromStorage :: "'a StoreWorld_scheme \<Rightarrow> 'a StoreWorld_scheme" where
  "loadFromStorage w =
     (if truthy_opt (token (store w)) then set_state (\<lambda>s. s\<lparr>isAuthenticated := True\<rparr>) w
      else w)"

text \<open>A reload of the page creates the store again from what the storage holds.\<close>

definition reload :: "'a StoreWorld_scheme \<Rightarrow> 'a StoreWorld_scheme" where
  "reload w = w\<lparr>store := rehydrate (storage w)\<rparr>"

text \<open>The reachable states of the store: any sequence of its operations and reloads,
  started at the first creation of the store, with an empty storage.\<close>

datatype StoreEvent = Login jsstring jsstring | Logout | LoadFromStorage | Reload

fun store_step :: "StoreWorld \<Rightarrow> StoreEvent \<Rightarrow> StoreWorld" where
  "store_step w (Login tok name) = login tok name w"
| "store_step w Logout = logout w"
| "store_step w LoadFromStorage = loadFromStorage w"
| "store_step w Reload = reload w"

definition store_run :: "StoreEvent list \<Rightarrow> StoreWorld" where
  "store_run evs = foldl store_step (createStore None) evs"

section \<open>HTTP gateway (api/client.ts)\<close>

datatype json = JNull | JBool bool | JString jsstring | JObject "(jsstring \<times> json) list"

datatype Method = GET | POST

datatype Body = NoBody | JsonBody json | FormBody "(jsstring \<times> jsstring) list"

text \<open>
  The configuration of one axios request. \<open>req_url\<close> is the path under the base URL of
  the instance; \<open>req_timeout\<close> is in milliseconds.
\<close>

record Request =
  req_method :: Method
  req_url :: jsstring
  req_headers :: "jsstring \<rightharpoonup> jsstring"
  req_body :: Body
  req_timeout :: nat

text \<open>
  What the transport answers. axios resolves a response whose status lies in 200..299
  (\<open>Fulfilled\<close>, with the body typed as the caller asked) and rejects every other one
  (\<open>ErrorStatus\<close>, with the status, outside 200..299, and the body, which callers read
  through its fields \<open>detail\<close> and \<open>message\<close> only); without a response (network
  failure, timeout) it rejects with an error that has no \<open>response\<close>.
\<close>

record ErrorData =
  data_detail :: "jsstring option"
  data_message :: "jsstring option"

record ErrorResponse =
  status :: nat
  data :: ErrorData

record AxiosError =
  response :: "ErrorResponse option"

datatype 'a NetResult = NoResponse | Fulfilled 'a | ErrorStatus nat ErrorData

text \<open>
  The world the gateway acts on: the session store with its storage,
  \<open>window.location.href\<close> (absent when there is no \<open>window\<close> object), and the requests
  handed to the transport so far, oldest first.
\<close>

record World = StoreWorld +
  window_location_href :: "jsstring option"
  sent :: "Request list"

definition defaultHeaders :: "jsstring \<rightharpoonup> jsstring" where
  "defaultHeaders = [js ''Content-Type'' \<mapsto> js ''application/json'']"

definition defaultTimeout :: nat where
  "defaultTimeout = 20000"

text \<open>Request interceptor: attach the bearer token when the store holds one (the
  headers of an axios configuration always exist).\<close>

definition requestInterceptor :: "World \<Rightarrow> Request \<Rightarrow> Request" where
  "requestInterceptor w config =
     (case token (store w) of
        None \<Rightarrow> config
      | Some tok \<Rightarrow>
          if truthy tok
          then config\<lparr>req_headers := (req_headers config)(js ''Authorization'' \<mapsto> js ''Bearer '' @ tok)\<rparr>
          else config)"

text \<open>Response interceptor, error branch: a 401 logs out and sends the browser to /login.\<close>

definition responseErrorInterceptor :: "AxiosError \<Rightarrow> World \<Rightarrow> World" where
  "responseErrorInterceptor err w =
     (if map_option status (response err) = Some 401
      then (let w' = logout w
            in case window_location_href w' of
                 None \<Rightarrow> w'
               | Some _ \<Rightarrow> w'\<lparr>window_location_href := Some (js ''/login'')\<rparr>)
      else w)"

text \<open>
  One call of the axios instance, in its two halves: \<open>dispatch\<close> runs the request
  interceptor and hands the request to the transport; \<open>settle\<close> turns the transport's
  answer into the resolved value or the rejection, through the response interceptor.
\<close>

definition dispatch :: "Request \<Rightarrow> World \<Rightarrow> Request \<times> World" where
  "dispatch config w =
     (let config' = requestInterceptor w config in (config', w\<lparr>sent := sent w @ [config']\<rparr>))"

definition settle :: "'a NetResult \<Rightarrow> World \<Rightarrow> (AxiosError + 'a) \<times> World" where
  "settle answer w =
     (case answer of
        Fulfilled d \<Rightarrow> (Inr d, w)
      | NoResponse \<Rightarrow>
          (let err = \<lparr>response = None\<rparr> in (Inl err, responseErrorInterceptor err w))
      | ErrorStatus st body \<Rightarrow>
          (let err = \<lparr>response = Some \<lparr>status = st, data = body\<rparr>\<rparr>
           in (Inl err, responseErrorInterceptor err w)))"

definition instance_request ::
  "(Request \<Rightarrow> 'a NetResult) \<Rightarrow> Request \<Rightarrow> World \<Rightarrow> (AxiosError + 'a) \<times> World" where
  "instance_request net config w =
     (case dispatch config w of (config', w') \<Rightarrow> settle (net config') w')"

definition get_config :: "jsstring \<Rightarrow> Request" where
  "get_config url =
     \<lparr>req_method = GET, req_url = url, req_headers = defaultHeaders, req_body = NoBody,
      req_timeout = defaultTimeout\<rparr>"

definition post_config :: "jsstring \<Rightarrow> json option \<Rightarrow> Request" where
  "post_config url payload =
     \<lparr>req_method = POST, req_url = url, req_headers = defaultHeaders,
      req_body = (case payload of None \<Rightarrow> NoBody | Some d \<Rightarrow> JsonBody d),
      req_timeout = defaultTimeout\<rparr>"

text \<open>\<open>postForm\<close> appends every entry of the object to a URLSearchParams, in order.\<close>

definition postForm_config :: "jsstring \<Rightarrow> (jsstring \<times> jsstring) list \<Rightarrow> Request" where
  "postForm_config url entries =
     \<lparr>req_method = POST, req_url = url,
      req_headers = defaultHeaders(js ''Content-Type'' \<mapsto> js ''application/x-www-form-urlencoded''),
      req_body = FormBody (foldl (\<lambda>formData (k, v). formData @ [(k, v)]) [] entries),
      req_timeout = defaultTimeout\<rparr>"

definition healthCheck_config :: Request where
  "healthCheck_config = (get_config (js ''/health''))\<lparr>req_timeout := 5000\<rparr>"

definition ApiClient_get ::
  "(Request \<Rightarrow> 'a NetResult) \<Rightarrow> jsstring \<Rightarrow> World \<Rightarrow> (AxiosError + 'a) \<times> World" where
  "ApiClient_get net url w = instance_request net (get_config url) w"

definition ApiClient_post ::
  "(Request \<Rightarrow> 'a NetResult) \<Rightarrow> jsstring \<Rightarrow> json option \<Rightarrow> World \<Rightarrow> (AxiosError + 'a) \<times> World" where
  "ApiClient_post net url payload w = instance_request net (post_config url payload) w"

definition ApiClient_postForm ::
  "(Request \<Rightarrow> 'a NetResult) \<Rightarrow> jsstring \<Rightarrow> (jsstring \<times> jsstring) list \<Rightarrow> World
     \<Rightarrow> (AxiosError + 'a) \<times> World" where
  "ApiClient_postForm net url entries w = instance_request net (postForm_config url entries) w"

definition ApiClient_healthCheck :: "(Request \<Rightarrow> 'a NetResult) \<Rightarrow> World \<Rightarrow> bool \<times> World" where
  "ApiClient_healthCheck net w =
     (case instance_request net healthCheck_config w of
        (Inr _, w') \<Rightarrow> (True, w')
      | (Inl _, w') \<Rightarrow> (False, w'))"

text \<open>How every call site turns a caught error into the text it shows:
  \<open>err.response?.data?.detail || err.response?.data?.message || fallback\<close>.\<close>

definition or_else :: "jsstring option \<Rightarrow> jsstring \<Rightarrow> jsstring" where
  "or_else v rest = (case v of None \<Rightarrow> rest | Some s \<Rightarrow> if truthy s then s else rest)"

definition errorMessage :: "AxiosError \<Rightarrow> jsstring \<Rightarrow> jsstring" where
  "errorMessage err fallback =
     (case response err of
        None \<Rightarrow> fallback
      | Some r \<Rightarrow> or_else (data_detail (data r)) (or_else (data_message (data r)) fallback))"


section \<open>Auth service (api/auth.ts)\<close>

record TokenResponse =
  access_token :: jsstring
  token_type :: jsstring

record AuthCredentials =
  cred_username :: jsstring
  cred_password :: jsstring

definition credentials_json :: "AuthCredentials \<Rightarrow> json" where
  "credentials_json c =
     JObject [(js ''username'', JString (cred_username c)), (js ''password'', JString (cred_password c))]"

definition credentials_entries :: "AuthCredentials \<Rightarrow> (jsstring \<times> jsstring) list" where
  "credentials_entries c = [(js ''username'', cred_username c), (js ''password'', cred_password c)]"

definition authApi_signup ::
  "(Request \<Rightarrow> TokenResponse NetResult) \<Rightarrow> AuthCredentials \<Rightarrow> World
     \<Rightarrow> (AxiosError + TokenResponse) \<times> World" where
  "authApi_signup net c w = ApiClient_post net (js ''/auth/signup'') (Some (credentials_json c)) w"

definition authApi_login ::
  "(Request \<Rightarrow> TokenResponse NetResult) \<Rightarrow> AuthCredentials \<Rightarrow> World
     \<Rightarrow> (AxiosError + TokenResponse) \<times> World" where
  "authApi_login net c w = ApiClient_postForm net (js ''/auth/login'') (credentials_entries c) w"


section \<open>Chat service (api/chat.ts)\<close>

datatype Role = User | Bot

record ChatMessage =
  role :: Role
  msg_text :: jsstring

record ChatHistoryItem =
  chat_id :: jsstring
  messages :: "ChatMessage list"
  timestamp :: jsstring

record ChatHistoryResponse =
  items :: "ChatHistoryItem list"

record SendResp =
  reply :: jsstring

record NewChatResp =
  new_chat_id :: jsstring

record CloseResp =
  closed :: bool
  close_error :: "jsstring option"

definition sendMessage_body :: "jsstring \<Rightarrow> json" where
  "sendMessage_body msg = JObject [(js ''message'', JString msg)]"

definition chatApi_sendMessage ::
  "(Request \<Rightarrow> SendResp NetResult) \<Rightarrow> jsstring \<Rightarrow> World \<Rightarrow> (AxiosError + SendResp) \<times> World" where
  "chatApi_sendMessage net msg w =
     ApiClient_post net (js ''/chat/message'') (Some (sendMessage_body msg)) w"

definition chatApi_getHistory ::
  "(Request \<Rightarrow> ChatHistoryResponse NetResult) \<Rightarrow> World
     \<Rightarrow> (AxiosError + ChatHistoryResponse) \<times> World" where
  "chatApi_getHistory net w = ApiClient_get net (js ''/chat/history'') w"

definition chatApi_newChat ::
  "(Request \<Rightarrow> NewChatResp NetResult) \<Rightarrow> World \<Rightarrow> (AxiosError + NewChatResp) \<times> World" where
  "chatApi_newChat net w = ApiClient_post net (js ''/chat/new'') (Some (JObject [])) w"

text \<open>\<open>{ chat_id: chatId ?? null }\<close>: an absent id is sent as null.\<close>

definition closeChat_body :: "jsstring option \<Rightarrow> json" where
  "closeChat_body chatId =
     JObject [(js ''chat_id'', (case chatId of None \<Rightarrow> JNull | Some i \<Rightarrow> JString i))]"

definition chatApi_closeChat ::
  "(Request \<Rightarrow> CloseResp NetResult) \<Rightarrow> jsstring option \<Rightarrow> World
     \<Rightarrow> (AxiosError + CloseResp) \<times> World" where
  "chatApi_closeChat net chatId w =
     ApiClient_post net (js ''/chat/close'') (Some (closeChat_body chatId)) w"


section \<open>Conversation view (components/ChatWindow.tsx)\<close>

record ChatWindowState =
  currentMessages :: "ChatMessage list"
  message :: jsstring
  isSending :: bool
  send_error :: jsstring

definition ChatWindow_mount :: ChatWindowState where
  "ChatWindow_mount = \<lparr>currentMessages = [], message = [], isSending = False, send_error = []\<rparr>"

text \<open>The effect on the \<open>history\<close> prop: the list of the selected session replaces the
  displayed list.\<close>

definition history_effect :: "ChatHistoryItem option \<Rightarrow> ChatWindowState \<Rightarrow> ChatWindowState" where
  "history_effect h s =
     s\<lparr>currentMessages := (case h of Some item \<Rightarrow> messages item | None \<Rightarrow> [])\<rparr>"

text \<open>\<open>onChange\<close> of the textarea, which is disabled while a send is under way.\<close>

definition onChange :: "jsstring \<Rightarrow> ChatWindowState \<Rightarrow> ChatWindowState" where
  "onChange v s = (if isSending s then s else s\<lparr>message := v\<rparr>)"

definition send_fallback :: jsstring where
  "send_fallback =
     js ''Erreur lors de l'' @ [0x27] @ js ''envoi du message. Veuillez r'' @ [0xE9] @ js ''essayer.''"

text \<open>
  \<open>handleSend\<close> in its three parts. \<open>handleSend_begin\<close> is the code up to the
  \<open>await\<close>: \<open>None\<close> is the early return of the guard; otherwise it gives the trimmed
  text the closure keeps and the state with the optimistic updates.
  \<open>handleSend_then\<close> is the rest of the \<open>try\<close> block and \<open>handleSend_catch\<close> the
  \<open>catch\<close> block, each followed by \<open>finally\<close>; they update the state the component
  has when the call settles. \<open>onNewMessage\<close>, called at the end of the \<open>try\<close>
  block, makes the page load the history again and leaves this component's state alone.
\<close>

definition handleSend_begin :: "ChatWindowState \<Rightarrow> (jsstring \<times> ChatWindowState) option" where
  "handleSend_begin s =
     (let trimmedMessage = trim (message s) in
      if \<not> truthy trimmedMessage \<or> isSending s then None
      else
        (let userMessage = \<lparr>role = User, msg_text = trimmedMessage\<rparr>
         in Some (trimmedMessage,
              s\<lparr>send_error := [], isSending := True,
                currentMessages := currentMessages s @ [userMessage], message := []\<rparr>)))"

definition handleSend_then :: "SendResp \<Rightarrow> ChatWindowState \<Rightarrow> ChatWindowState" where
  "handleSend_then resp s =
     (let botMessage = \<lparr>role = Bot, msg_text = reply resp\<rparr>
      in s\<lparr>currentMessages := currentMessages s @ [botMessage], isSending := False\<rparr>)"

definition handleSend_catch :: "jsstring \<Rightarrow> AxiosError \<Rightarrow> ChatWindowState \<Rightarrow> ChatWindowState" where
  "handleSend_catch trimmedMessage err s =
     s\<lparr>send_error := errorMessage err send_fallback,
       currentMessages := butlast (currentMessages s),
       message := trimmedMessage, isSending := False\<rparr>"

definition handleSend_settled ::
  "jsstring \<Rightarrow> AxiosError + SendResp \<Rightarrow> ChatWindowState \<Rightarrow> ChatWindowState" where
  "handleSend_settled trimmedMessage result s =
     (case result of
        Inr resp \<Rightarrow> handleSend_then resp s
      | Inl err \<Rightarrow> handleSend_catch trimmedMessage err s)"

text \<open>A whole run of \<open>handleSend\<close> with nothing else happening before the call settles.\<close>

definition handleSend ::
  "(Request \<Rightarrow> SendResp NetResult) \<Rightarrow> ChatWindowState \<times> World \<Rightarrow> ChatWindowState \<times> World" where
  "handleSend net sw =
     (case sw of (s, w) \<Rightarrow>
        (case handleSend_begin s of
           None \<Rightarrow> (s, w)
         | Some (trimmedMessage, s1) \<Rightarrow>
             (case chatApi_sendMessage net trimmedMessage w of
                (result, w') \<Rightarrow> (handleSend_settled trimmedMessage result s1, w'))))"

text \<open>
  The conversation view as a machine driven by events, with the calls to
  \<open>sendMessage\<close> that have not settled yet: \<open>inflight\<close> holds the trimmed text of each.
  A handler runs on the state the events before it left (React renders again between
  two events, so the closure of a handler holds the current values); the functional
  updates of the continuation of \<open>handleSend\<close> apply to the state at the time the call
  settles.
\<close>

record Conversation =
  view :: ChatWindowState
  world :: World
  inflight :: "jsstring list"

datatype ConversationEvent =
    Submit
  | Settled "SendResp NetResult"
  | Typed jsstring
  | HistoryProp "ChatHistoryItem option"

fun conversation_step :: "Conversation \<Rightarrow> ConversationEvent \<Rightarrow> Conversation" where
  "conversation_step c Submit =
     (case handleSend_begin (view c) of
        None \<Rightarrow> c
      | Some (trimmedMessage, s1) \<Rightarrow>
          (case dispatch (post_config (js ''/chat/message'') (Some (sendMessage_body trimmedMessage)))
                  (world c) of
             (config', w') \<Rightarrow>
               c\<lparr>view := s1, world := w', inflight := inflight c @ [trimmedMessage]\<rparr>))"
| "conversation_step c (Settled answer) =
     (case inflight c of
        [] \<Rightarrow> c
      | trimmedMessage # others \<Rightarrow>
          (case settle answer (world c) of
             (result, w') \<Rightarrow>
               c\<lparr>view := handleSend_settled trimmedMessage result (view c), world := w',
                 inflight := others\<rparr>))"
| "conversation_step c (Typed v) = c\<lparr>view := onChange v (view c)\<rparr>"
| "conversation_step c (HistoryProp h) = c\<lparr>view := history_effect h (view c)\<rparr>"

definition conversation_start :: "World \<Rightarrow> Conversation" where
  "conversation_start w = \<lparr>view = ChatWindow_mount, world = w, inflight = []\<rparr>"

definition conversation_run :: "World \<Rightarrow> ConversationEvent list \<Rightarrow> Conversation" where
  "conversation_run w evs = foldl conversation_step (conversation_start w) evs"

section \<open>History view (pages/Chat.tsx)\<close>

text \<open>
  \<open>new Date(ts).getTime()\<close> is a parameter of the model, \<open>getTime\<close>: the time value of
  a timestamp in milliseconds, or \<open>None\<close> where JavaScript gives NaN (a string that is
  no date). Time values are integers of magnitude at most 8.64e15, so the sign of the
  floating-point difference the comparator returns is the sign of the integer difference.
\<close>

definition compareByTimestampDesc ::
  "(jsstring \<Rightarrow> int option) \<Rightarrow> ChatHistoryItem \<Rightarrow> ChatHistoryItem \<Rightarrow> int option" where
  "compareByTimestampDesc getTime a b =
     (case (getTime (timestamp b), getTime (timestamp a)) of
        (Some tb, Some ta) \<Rightarrow> Some (tb - ta)
      | _ \<Rightarrow> None)"

text \<open>
  \<open>Array.prototype.sort\<close>: the comparator's NaN counts as 0, a positive value moves the
  first argument behind the second, and the sort is stable. Insertion from the right
  end is such a sort; for a comparator that orders the elements consistently every
  stable sort returns the same list.
\<close>

definition SortCompare :: "('a \<Rightarrow> 'a \<Rightarrow> int option) \<Rightarrow> 'a \<Rightarrow> 'a \<Rightarrow> int" where
  "SortCompare comparefn x y = (case comparefn x y of None \<Rightarrow> 0 | Some v \<Rightarrow> v)"

fun insertInOrder :: "('a \<Rightarrow> 'a \<Rightarrow> int option) \<Rightarrow> 'a \<Rightarrow> 'a list \<Rightarrow> 'a list" where
  "insertInOrder comparefn x [] = [x]"
| "insertInOrder comparefn x (y # ys) =
     (if 0 < SortCompare comparefn x y then y # insertInOrder comparefn x ys else x # y # ys)"

fun Array_sort :: "('a \<Rightarrow> 'a \<Rightarrow> int option) \<Rightarrow> 'a list \<Rightarrow> 'a list" where
  "Array_sort comparefn [] = []"
| "Array_sort comparefn (x # xs) = insertInOrder comparefn x (Array_sort comparefn xs)"

definition sortHistory ::
  "(jsstring \<Rightarrow> int option) \<Rightarrow> ChatHistoryItem list \<Rightarrow> ChatHistoryItem list" where
  "sortHistory getTime its = Array_sort (compareByTimestampDesc getTime) its"

record ChatPageState =
  history :: "ChatHistoryItem list"
  selectedChatId :: "jsstring option"
  isLoadingHistory :: bool
  page_error :: jsstring
  isServerOnline :: bool
  isActionLoading :: bool

definition Chat_mount :: ChatPageState where
  "Chat_mount =
     \<lparr>history = [], selectedChatId = None, isLoadingHistory = True, page_error = [],
      isServerOnline = True, isActionLoading = False\<rparr>"

text \<open>\<open>navigate\<close> of the router: the browser shows the given path.\<close>

definition navigate :: "jsstring \<Rightarrow> World \<Rightarrow> World" where
  "navigate path w = w\<lparr>window_location_href := map_option (\<lambda>_. path) (window_location_href w)\<rparr>"

definition loadHistory_fallback :: jsstring where
  "loadHistory_fallback = js ''Erreur lors du chargement de l'' @ [0x27] @ js ''historique''"

definition newChat_fallback :: jsstring where
  "newChat_fallback = js ''Impossible de cr'' @ [0xE9] @ js ''er une nouvelle session''"

definition closeChat_fallback :: jsstring where
  "closeChat_fallback = js ''Impossible de terminer la session''"

text \<open>
  The handlers of the page, each run from its first statement to its \<open>finally\<close>; the
  transports give the answer to each call the handler makes. \<open>selectedChatId\<close> is read
  from the state the handler starts in, as the closure does.
\<close>

definition loadHistory ::
  "(jsstring \<Rightarrow> int option) \<Rightarrow> (Request \<Rightarrow> ChatHistoryResponse NetResult)
     \<Rightarrow> ChatPageState \<times> World \<Rightarrow> ChatPageState \<times> World" where
  "loadHistory getTime netHistory sw =
     (case sw of (s, w) \<Rightarrow>
        (let s1 = s\<lparr>isLoadingHistory := True, page_error := []\<rparr> in
         case chatApi_getHistory netHistory w of
           (Inr res, w') \<Rightarrow>
             (let sorted = sortHistory getTime (items res);
                  s2 = s1\<lparr>history := sorted\<rparr>;
                  s3 = (case sorted of
                          [] \<Rightarrow> s2
                        | first # _ \<Rightarrow>
                            if \<not> truthy_opt (selectedChatId s)
                            then s2\<lparr>selectedChatId := Some (chat_id first)\<rparr> else s2)
              in (s3\<lparr>isLoadingHistory := False\<rparr>, w'))
         | (Inl err, w') \<Rightarrow>
             (let s2 = s1\<lparr>page_error := errorMessage err loadHistory_fallback\<rparr>;
                  w'' = (if map_option status (response err) = Some 401
                         then navigate (js ''/login'') (logout w') else w')
              in (s2\<lparr>isLoadingHistory := False\<rparr>, w''))))"

definition handleSelectChat :: "jsstring \<Rightarrow> ChatPageState \<Rightarrow> ChatPageState" where
  "handleSelectChat chatId s = s\<lparr>selectedChatId := Some chatId\<rparr>"

definition handleNewChat ::
  "(jsstring \<Rightarrow> int option) \<Rightarrow> (Request \<Rightarrow> CloseResp NetResult)
     \<Rightarrow> (Request \<Rightarrow> NewChatResp NetResult) \<Rightarrow> (Request \<Rightarrow> ChatHistoryResponse NetResult)
     \<Rightarrow> ChatPageState \<times> World \<Rightarrow> ChatPageState \<times> World" where
  "handleNewChat getTime netClose netNew netHistory sw =
     (case sw of (s, w) \<Rightarrow>
        (let s1 = s\<lparr>isActionLoading := True, page_error := []\<rparr>;
             failed = (\<lambda>err. s1\<lparr>page_error := errorMessage err newChat_fallback,
                                 isActionLoading := False\<rparr>)
         in case chatApi_closeChat netClose (selectedChatId s) w of
              (Inl err, w1) \<Rightarrow> (failed err, w1)
            | (Inr _, w1) \<Rightarrow>
                (case chatApi_newChat netNew w1 of
                   (Inl err, w2) \<Rightarrow> (failed err, w2)
                 | (Inr created, w2) \<Rightarrow>
                     (case chatApi_getHistory netHistory w2 of
                        (Inl err, w3) \<Rightarrow> (failed err, w3)
                      | (Inr res, w3) \<Rightarrow>
                          (let sorted = sortHistory getTime (items res)
                           in (s1\<lparr>history := sorted,
                                   selectedChatId := Some (new_chat_id created),
                                   isActionLoading := False\<rparr>, w3))))))"

definition handleCloseChat ::
  "(jsstring \<Rightarrow> int option) \<Rightarrow> (Request \<Rightarrow> CloseResp NetResult)
     \<Rightarrow> (Request \<Rightarrow> ChatHistoryResponse NetResult)
     \<Rightarrow> ChatPageState \<times> World \<Rightarrow> ChatPageState \<times> World" where
  "handleCloseChat getTime netClose netHistory sw =
     (case sw of (s, w) \<Rightarrow>
        if \<not> truthy_opt (selectedChatId s) then (s, w)
        else
          (let s1 = s\<lparr>isActionLoading := True, page_error := []\<rparr>;
               failed = (\<lambda>err. s1\<lparr>page_error := errorMessage err closeChat_fallback,
                                   isActionLoading := False\<rparr>)
           in case chatApi_closeChat netClose (selectedChatId s) w of
                (Inl err, w1) \<Rightarrow> (failed err, w1)
              | (Inr _, w1) \<Rightarrow>
                  (case chatApi_getHistory netHistory w1 of
                     (Inl err, w2) \<Rightarrow> (failed err, w2)
                   | (Inr res, w2) \<Rightarrow>
                       (let sorted = sortHistory getTime (items res)
                        in (s1\<lparr>history := sorted,
                                selectedChatId :=
                                  (case sorted of [] \<Rightarrow> None | first # _ \<Rightarrow> Some (chat_id first)),
                                isActionLoading := False\<rparr>, w2)))))"

definition selectedHistory :: "ChatPageState \<Rightarrow> ChatHistoryItem option" where
  "selectedHistory s = find (\<lambda>item. Some (chat_id item) = selectedChatId s) (history s)"


section \<open>Notions used to state the properties\<close>

subsection \<open>Session store\<close>

definition token_present :: "AuthState \<Rightarrow> bool" where
  "token_present s \<longleftrightarrow> token s \<noteq> None"

text \<open>What every reachable state of the store satisfies: the storage mirrors the token
  of the store, and the flag is set only with a token.\<close>

definition store_inv :: "StoreWorld \<Rightarrow> bool" where
  "store_inv w \<longleftrightarrow>
     (case storage w of None \<Rightarrow> token (store w) = None
      | Some p \<Rightarrow> p_token p = token (store w))
     \<and> (isAuthenticated (store w) \<longrightarrow> token (store w) \<noteq> None)"

subsection \<open>Transports\<close>

text \<open>The transport answered the request sent last with status 401.\<close>

definition got_401 :: "(Request \<Rightarrow> 'a NetResult) \<Rightarrow> World \<Rightarrow> bool" where
  "got_401 net w' \<longleftrightarrow> (\<exists>body. net (last (sent w')) = ErrorStatus 401 body)"

text \<open>A call resolved with the body \<open>d\<close>.\<close>

definition resolved :: "(AxiosError + 'a) \<times> World \<Rightarrow> 'a \<Rightarrow> bool" where
  "resolved outcome d \<longleftrightarrow> fst outcome = Inr d"

text \<open>A transport that resolves every request with the body \<open>d\<close>.\<close>

definition answers :: "(Request \<Rightarrow> 'a NetResult) \<Rightarrow> 'a \<Rightarrow> bool" where
  "answers net d \<longleftrightarrow> (\<forall>req. net req = Fulfilled d)"

text \<open>The session is torn down and the browser, where there is one, shows /login.\<close>

definition forced_to_login :: "World \<Rightarrow> World \<Rightarrow> bool" where
  "forced_to_login w w' \<longleftrightarrow>
     \<not> isAuthenticated (store w') \<and> token (store w') = None \<and> username (store w') = None
     \<and> window_location_href w' = map_option (\<lambda>_. js ''/login'') (window_location_href w)"

subsection \<open>Conversation\<close>

definition whitespace_only :: "jsstring \<Rightarrow> bool" where
  "whitespace_only s = list_all isWhiteSpace s"

definition conversation_inv :: "Conversation \<Rightarrow> bool" where
  "conversation_inv c \<longleftrightarrow> length (inflight c) = (if isSending (view c) then 1 else 0)"





subsection \<open>History\<close>

text \<open>
  A new chat, and a close chat, whose calls all resolve: \<open>created\<close> is what newChat
  returned and \<open>res\<close> the history fetched at the end. Each call starts in the world
  the call before it left.
\<close>

definition newChat_succeeds ::
  "(Request \<Rightarrow> CloseResp NetResult) \<Rightarrow> (Request \<Rightarrow> NewChatResp NetResult)
     \<Rightarrow> (Request \<Rightarrow> ChatHistoryResponse NetResult) \<Rightarrow> ChatPageState \<Rightarrow> World
     \<Rightarrow> NewChatResp \<Rightarrow> ChatHistoryResponse \<Rightarrow> bool" where
  "newChat_succeeds netClose netNew netHistory s w created res \<longleftrightarrow>
     (let closing = chatApi_closeChat netClose (selectedChatId s) w;
          creating = chatApi_newChat netNew (snd closing);
          fetching = chatApi_getHistory netHistory (snd creating)
      in (\<exists>cr. resolved closing cr) \<and> resolved creating created \<and> resolved fetching res)"

definition closeChat_succeeds ::
  "(Request \<Rightarrow> CloseResp NetResult) \<Rightarrow> (Request \<Rightarrow> ChatHistoryResponse NetResult)
     \<Rightarrow> ChatPageState \<Rightarrow> World \<Rightarrow> ChatHistoryResponse \<Rightarrow> bool" where
  "closeChat_succeeds netClose netHistory s w res \<longleftrightarrow>
     truthy_opt (selectedChatId s)
     \<and> (let closing = chatApi_closeChat netClose (selectedChatId s) w;
             fetching = chatApi_getHistory netHistory (snd closing)
         in (\<exists>cr. resolved closing cr) \<and> resolved fetching res)"

text \<open>The order the history is shown in: each item's time value is at least the next
  one's. NaN is at least nothing.\<close>

definition time_ge :: "int option \<Rightarrow> int option \<Rightarrow> bool" where
  "time_ge a b = (case (a, b) of (Some x, Some y) \<Rightarrow> y \<le> x | _ \<Rightarrow> False)"

fun descending :: "(jsstring \<Rightarrow> int option) \<Rightarrow> ChatHistoryItem list \<Rightarrow> bool" where
  "descending getTime [] = True"
| "descending getTime [x] = True"
| "descending getTime (x # y # ys) =
     (time_ge (getTime (timestamp x)) (getTime (timestamp y)) \<and> descending getTime (y # ys))"

definition valid_timestamps :: "(jsstring \<Rightarrow> int option) \<Rightarrow> ChatHistoryItem list \<Rightarrow> bool" where
  "valid_timestamps getTime its = list_all (\<lambda>item. getTime (timestamp item) \<noteq> None) its"

definition time_of :: "(jsstring \<Rightarrow> int option) \<Rightarrow> ChatHistoryItem \<Rightarrow> int" where
  "time_of getTime item = (case getTime (timestamp item) of Some t \<Rightarrow> t | None \<Rightarrow> 0)"

subsection \<open>Example values\<close>

text \<open>A browser in which alice is logged in with the token tok1, and a conversation
  with one earlier reply and the input \<open>" hi "\<close>.\<close>

definition alice_world :: World where
  "alice_world =
     \<lparr>store = \<lparr>token = Some (js ''tok1''), username = Some (js ''alice''), isAuthenticated = True\<rparr>,
      storage = Some \<lparr>p_token = Some (js ''tok1''), p_username = Some (js ''alice'')\<rparr>,
      window_location_href = Some (js ''/chat''), sent = []\<rparr>"

definition alice_conversation :: Conversation where
  "alice_conversation =
     \<lparr>view = \<lparr>currentMessages = [\<lparr>role = Bot, msg_text = js ''Bonjour''\<rparr>],
              message = js '' hi '', isSending = False, send_error = []\<rparr>,
      world = alice_world, inflight = []\<rparr>"


text \<open>Three sessions in an order a server may list them, which is not the order of
  their dates, and the time values of their timestamps.\<close>

definition example_getTime :: "jsstring \<Rightarrow> int option" where
  "example_getTime ts =
     (if ts = js ''2024-01-01T00:00:00.000Z'' then Some 1704067200000
      else if ts = js ''2024-01-02T00:00:00.000Z'' then Some 1704153600000
      else if ts = js ''2024-01-03T00:00:00.000Z'' then Some 1704240000000
      else None)"

definition example_items :: "ChatHistoryItem list" where
  "example_items =
     [\<lparr>chat_id = js ''abc123'', messages = [], timestamp = js ''2024-01-01T00:00:00.000Z''\<rparr>,
      \<lparr>chat_id = js ''s3'', messages = [], timestamp = js ''2024-01-03T00:00:00.000Z''\<rparr>,
      \<lparr>chat_id = js ''s2'', messages = [], timestamp = js ''2024-01-02T00:00:00.000Z''\<rparr>]"

definition example_page :: ChatPageState where
  "example_page = Chat_mount\<lparr>selectedChatId := Some (js ''s3''), isLoadingHistory := False\<rparr>"


section \<open>Properties of the session store\<close>

lemmas store_defs = login_def logout_def loadFromStorage_def reload_def
  createStore_def rehydrate_def set_state_def partialize_def initialAuthState_def
  truthy_opt_def truthy_def

lemma store_run_snoc: "store_run (evs @ [e]) = store_step (store_run evs) e"
  by (simp add: store_run_def)

lemma store_inv_step: "store_inv w \<Longrightarrow> store_inv (store_step w e)"
  by (cases e) (auto simp: store_inv_def store_defs split: option.splits)

lemma store_inv_run: "store_inv (store_run evs)"
proof (induction evs rule: rev_induct)
  case Nil
  show ?case
    by (simp add: store_run_def store_inv_def createStore_def rehydrate_def initialAuthState_def)
next
  case (snoc e evs)
  then show ?case by (simp add: store_run_snoc store_inv_step)
qed

text \<open>
  Claim C3, as amended. In every reachable state of the session store the
  authenticated flag is set only if a token is present. The converse holds in the
  initial state, after login, after logout, and after loadFromStorage when the stored
  token is not the empty string. Right after the rehydration of the persisted record
  on reload the flag is false, whether a token was restored or not, and the restored
  token is present exactly when it was before the reload.
\<close>

theorem store_flag_and_token:
  "(isAuthenticated (store (store_run evs)) \<longrightarrow> token_present (store (store_run evs)))
   \<and> (isAuthenticated (store (createStore None)) \<longleftrightarrow> token_present (store (createStore None)))
   \<and> (isAuthenticated (store (login tok name w)) \<longleftrightarrow> token_present (store (login tok name w)))
   \<and> (isAuthenticated (store (logout w)) \<longleftrightarrow> token_present (store (logout w)))
   \<and> (token (store (store_run evs)) \<noteq> Some [] \<longrightarrow>
        (isAuthenticated (store (loadFromStorage (store_run evs)))
           \<longleftrightarrow> token_present (store (loadFromStorage (store_run evs)))))
   \<and> \<not> isAuthenticated (store (reload (store_run evs)))
   \<and> (token_present (store (reload (store_run evs))) \<longleftrightarrow> token_present (store (store_run evs)))"
proof -
  have inv: "store_inv (store_run evs)" by (rule store_inv_run)
  have always: "isAuthenticated (store (store_run evs)) \<longrightarrow> token_present (store (store_run evs))"
    using inv by (simp add: store_inv_def token_present_def)
  have initially: "isAuthenticated (store (createStore None)) \<longleftrightarrow> token_present (store (createStore None))"
    by (simp add: token_present_def store_defs)
  have logged_in: "isAuthenticated (store (login tok name w)) \<longleftrightarrow> token_present (store (login tok name w))"
    by (simp add: token_present_def store_defs)
  have logged_out: "isAuthenticated (store (logout w)) \<longleftrightarrow> token_present (store (logout w))"
    by (simp add: token_present_def store_defs)
  have loaded: "isAuthenticated (store (loadFromStorage (store_run evs)))
      \<longleftrightarrow> token_present (store (loadFromStorage (store_run evs)))"
    if "token (store (store_run evs)) \<noteq> Some []"
    using inv that by (auto simp: store_inv_def token_present_def store_defs split: option.splits)
  have reloaded: "\<not> isAuthenticated (store (reload (store_run evs)))"
    by (simp add: store_defs split: option.splits)
  have restored: "token_present (store (reload (store_run evs))) \<longleftrightarrow> token_present (store (store_run evs))"
    using inv by (auto simp: store_inv_def token_present_def store_defs split: option.splits)
  from always initially logged_in logged_out loaded reloaded restored show ?thesis by blast
qed

text \<open>The amended claim at a login followed by a reload: the flag comes back only
  with loadFromStorage.\<close>

theorem store_flag_and_token_witness:
  "isAuthenticated (store (store_run [Login (js ''tok1'') (js ''alice'')]))
   \<and> token_present (store (store_run [Login (js ''tok1'') (js ''alice'')]))
   \<and> token (store (store_run [Login (js ''tok1'') (js ''alice''), Reload])) \<noteq> Some []
   \<and> isAuthenticated (store (loadFromStorage (store_run [Login (js ''tok1'') (js ''alice''), Reload])))
   \<and> token_present (store (loadFromStorage (store_run [Login (js ''tok1'') (js ''alice''), Reload])))"
proof -
  have flag: "isAuthenticated (store (store_run [Login (js ''tok1'') (js ''alice'')]))"
    by (simp add: store_run_def store_defs)
  have nonempty: "token (store (store_run [Login (js ''tok1'') (js ''alice''), Reload])) \<noteq> Some []"
    by (simp add: store_run_def store_defs js_def)
  have present: "token_present (store (loadFromStorage (store_run [Login (js ''tok1'') (js ''alice''), Reload])))"
    by (simp add: store_run_def store_defs token_present_def js_def)
  from flag nonempty present
    store_flag_and_token [of "[Login (js ''tok1'') (js ''alice'')]"]
    store_flag_and_token [of "[Login (js ''tok1'') (js ''alice''), Reload]"]
  show ?thesis by blast
qed

text \<open>Claim C3 as it was stated fails: after a login and a reload the token is back
  and the flag is not.\<close>

theorem store_invariant_counterexample:
  "\<not> (\<forall>evs. isAuthenticated (store (store_run evs)) \<longleftrightarrow> token_present (store (store_run evs)))"
proof
  assume "\<forall>evs. isAuthenticated (store (store_run evs)) \<longleftrightarrow> token_present (store (store_run evs))"
  then have "isAuthenticated (store (store_run [Login (js ''tok1'') (js ''alice''), Reload]))
      \<longleftrightarrow> token_present (store (store_run [Login (js ''tok1'') (js ''alice''), Reload]))"
    by blast
  then show False
    by (simp add: store_run_def token_present_def store_defs)
qed

text \<open>
  Claim C5. For every non-empty token and every username, login, then a reload that
  restores only the persisted token and username, then loadFromStorage give the same
  state of the store (token, username and authenticated flag) as the login alone.
\<close>

theorem login_reload_restore:
  "truthy tok \<Longrightarrow> store (loadFromStorage (reload (login tok name w))) = store (login tok name w)"
  by (simp add: store_defs)

theorem login_reload_restore_witness:
  "truthy (js ''tok1'') \<and>
   store (loadFromStorage (reload (login (js ''tok1'') (js ''alice'') (createStore None))))
     = \<lparr>token = Some (js ''tok1''), username = Some (js ''alice''), isAuthenticated = True\<rparr>"
proof -
  have nonempty: "truthy (js ''tok1'')" by (simp add: truthy_def js_def)
  from nonempty login_reload_restore [OF nonempty, of "js ''alice''" "createStore None"]
  show ?thesis by (simp add: store_defs)
qed


section \<open>Properties of the gateway and the auth service\<close>

lemma interceptor_keeps [simp]:
  "req_method (requestInterceptor w config) = req_method config"
  "req_url (requestInterceptor w config) = req_url config"
  "req_body (requestInterceptor w config) = req_body config"
  "req_timeout (requestInterceptor w config) = req_timeout config"
  by (simp_all add: requestInterceptor_def split: option.splits)

lemma header_names_differ [simp]:
  "js ''Authorization'' \<noteq> js ''Content-Type''" "js ''Content-Type'' \<noteq> js ''Authorization''"
  by (simp_all add: js_def)

lemma interceptor_content_type [simp]:
  "req_headers (requestInterceptor w config) (js ''Content-Type'')
     = req_headers config (js ''Content-Type'')"
  by (simp add: requestInterceptor_def split: option.splits)

lemma sent_instance_request:
  "sent (snd (instance_request net config w)) = sent w @ [requestInterceptor w config]"
  by (simp add: instance_request_def dispatch_def settle_def responseErrorInterceptor_def
      logout_def set_state_def Let_def split: NetResult.splits option.splits)

lemma fst_instance_request_Fulfilled:
  "net (requestInterceptor w config) = Fulfilled d \<Longrightarrow> fst (instance_request net config w) = Inr d"
  by (simp add: instance_request_def dispatch_def settle_def Let_def)

lemma instance_request_answers:
  "answers net d \<Longrightarrow> instance_request net config w =
     (Inr d, w\<lparr>sent := sent w @ [requestInterceptor w config]\<rparr>)"
  by (simp add: answers_def instance_request_def dispatch_def settle_def Let_def)

lemma instance_request_401:
  assumes "got_401 net (snd (instance_request net config w))"
  shows "forced_to_login w (snd (instance_request net config w))"
proof -
  obtain body where "net (requestInterceptor w config) = ErrorStatus 401 body"
    using assms unfolding got_401_def sent_instance_request by auto
  then show ?thesis
    by (simp add: instance_request_def dispatch_def settle_def responseErrorInterceptor_def
        forced_to_login_def logout_def set_state_def Let_def split: option.splits)
qed

lemma healthCheck_world:
  "snd (ApiClient_healthCheck net w) = snd (instance_request net healthCheck_config w)"
  by (simp add: ApiClient_healthCheck_def split: prod.splits sum.splits)

lemma answers_const: "answers (\<lambda>req. Fulfilled d) d"
  by (simp add: answers_def)

text \<open>
  Claim C2. Whatever call of the gateway gets a response with status 401 (the four
  methods of the client, and every operation of the auth and chat services), the
  session store afterwards has authenticated false, no token and no username, and
  the location of the window, where a window exists, is /login.
\<close>

theorem unauthorized_forces_logout:
  "(got_401 net (snd (ApiClient_get net url w)) \<longrightarrow>
      forced_to_login w (snd (ApiClient_get net url w)))
   \<and> (got_401 net (snd (ApiClient_post net url payload w)) \<longrightarrow>
      forced_to_login w (snd (ApiClient_post net url payload w)))
   \<and> (got_401 net (snd (ApiClient_postForm net url entries w)) \<longrightarrow>
      forced_to_login w (snd (ApiClient_postForm net url entries w)))
   \<and> (got_401 net (snd (ApiClient_healthCheck net w)) \<longrightarrow>
      forced_to_login w (snd (ApiClient_healthCheck net w)))
   \<and> (got_401 netAuth (snd (authApi_signup netAuth c w)) \<longrightarrow>
      forced_to_login w (snd (authApi_signup netAuth c w)))
   \<and> (got_401 netAuth (snd (authApi_login netAuth c w)) \<longrightarrow>
      forced_to_login w (snd (authApi_login netAuth c w)))
   \<and> (got_401 netSend (snd (chatApi_sendMessage netSend msg w)) \<longrightarrow>
      forced_to_login w (snd (chatApi_sendMessage netSend msg w)))
   \<and> (got_401 netHistory (snd (chatApi_getHistory netHistory w)) \<longrightarrow>
      forced_to_login w (snd (chatApi_getHistory netHistory w)))
   \<and> (got_401 netNew (snd (chatApi_newChat netNew w)) \<longrightarrow>
      forced_to_login w (snd (chatApi_newChat netNew w)))
   \<and> (got_401 netClose (snd (chatApi_closeChat netClose chatId w)) \<longrightarrow>
      forced_to_login w (snd (chatApi_closeChat netClose chatId w)))"
  by (simp add: ApiClient_get_def ApiClient_post_def ApiClient_postForm_def healthCheck_world
      authApi_signup_def authApi_login_def chatApi_sendMessage_def chatApi_getHistory_def
      chatApi_newChat_def chatApi_closeChat_def instance_request_401)

text \<open>With alice logged in, a 401 on the history call logs her out and shows /login.\<close>

theorem unauthorized_forces_logout_witness:
  "got_401 (\<lambda>req. ErrorStatus 401 \<lparr>data_detail = None, data_message = None\<rparr>
             :: ChatHistoryResponse NetResult)
     (snd (chatApi_getHistory
        (\<lambda>req. ErrorStatus 401 \<lparr>data_detail = None, data_message = None\<rparr>) alice_world))
   \<and> token (store alice_world) = Some (js ''tok1'')
   \<and> store (snd (chatApi_getHistory
        (\<lambda>req. ErrorStatus 401 \<lparr>data_detail = None, data_message = None\<rparr>) alice_world))
       = \<lparr>token = None, username = None, isAuthenticated = False\<rparr>
   \<and> window_location_href (snd (chatApi_getHistory
        (\<lambda>req. ErrorStatus 401 \<lparr>data_detail = None, data_message = None\<rparr>) alice_world))
       = Some (js ''/login'')"
proof -
  let ?net = "\<lambda>req. ErrorStatus 401 \<lparr>data_detail = None, data_message = None\<rparr>
    :: ChatHistoryResponse NetResult"
  have unauthorized: "got_401 ?net (snd (chatApi_getHistory ?net alice_world))"
    by (simp add: got_401_def)
  with unauthorized_forces_logout [where netHistory = ?net and w = alice_world]
  have torn: "forced_to_login alice_world (snd (chatApi_getHistory ?net alice_world))"
    by blast
  then have "store (snd (chatApi_getHistory ?net alice_world))
      = \<lparr>token = None, username = None, isAuthenticated = False\<rparr>"
    by (simp add: forced_to_login_def)
  with torn unauthorized show ?thesis
    by (simp add: forced_to_login_def alice_world_def)
qed

text \<open>
  Claim C8. For every credentials value, signup sends one POST to /auth/signup whose
  body is the credentials as a JSON object, with the JSON content type; login sends
  one POST to /auth/login whose body is the credentials as form parameters, with the
  form-urlencoded content type; each returns the token payload of a resolved
  response.
\<close>

theorem auth_encodings:
  "(let r = last (sent (snd (authApi_signup net c w))) in
      length (sent (snd (authApi_signup net c w))) = Suc (length (sent w))
      \<and> req_method r = POST \<and> req_url r = js ''/auth/signup''
      \<and> req_body r = JsonBody (JObject [(js ''username'', JString (cred_username c)),
                                          (js ''password'', JString (cred_password c))])
      \<and> req_headers r (js ''Content-Type'') = Some (js ''application/json'')
      \<and> (\<forall>payload. net r = Fulfilled payload \<longrightarrow> fst (authApi_signup net c w) = Inr payload))
   \<and> (let r = last (sent (snd (authApi_login net c w))) in
      length (sent (snd (authApi_login net c w))) = Suc (length (sent w))
      \<and> req_method r = POST \<and> req_url r = js ''/auth/login''
      \<and> req_body r = FormBody [(js ''username'', cred_username c), (js ''password'', cred_password c)]
      \<and> req_headers r (js ''Content-Type'') = Some (js ''application/x-www-form-urlencoded'')
      \<and> (\<forall>payload. net r = Fulfilled payload \<longrightarrow> fst (authApi_login net c w) = Inr payload))"
  by (simp add: authApi_signup_def authApi_login_def ApiClient_post_def ApiClient_postForm_def
      sent_instance_request fst_instance_request_Fulfilled post_config_def postForm_config_def
      credentials_json_def credentials_entries_def defaultHeaders_def Let_def)

text \<open>alice logs in and signs up against a server that answers with the token tok1.\<close>

theorem auth_encodings_witness:
  "fst (authApi_login (\<lambda>req. Fulfilled \<lparr>access_token = js ''tok1'', token_type = js ''bearer''\<rparr>)
          \<lparr>cred_username = js ''alice'', cred_password = js ''secret''\<rparr> (logout alice_world))
     = Inr \<lparr>access_token = js ''tok1'', token_type = js ''bearer''\<rparr>
   \<and> fst (authApi_signup (\<lambda>req. Fulfilled \<lparr>access_token = js ''tok1'', token_type = js ''bearer''\<rparr>)
          \<lparr>cred_username = js ''alice'', cred_password = js ''secret''\<rparr> (logout alice_world))
     = Inr \<lparr>access_token = js ''tok1'', token_type = js ''bearer''\<rparr>"
  using auth_encodings [of "\<lambda>req. Fulfilled \<lparr>access_token = js ''tok1'', token_type = js ''bearer''\<rparr>"
      "\<lparr>cred_username = js ''alice'', cred_password = js ''secret''\<rparr>" "logout alice_world"]
  by (simp add: Let_def)


section \<open>Properties of the conversation view\<close>

lemma dropWhile_all_Nil: "list_all P (dropWhile P xs) \<Longrightarrow> dropWhile P xs = []"
proof (rule ccontr)
  assume all: "list_all P (dropWhile P xs)" and ne: "dropWhile P xs \<noteq> []"
  from ne have "\<not> P (hd (dropWhile P xs))" by (rule hd_dropWhile)
  moreover from all ne have "P (hd (dropWhile P xs))" by (simp add: list_all_iff)
  ultimately show False by simp
qed

text \<open>The trimmed text is empty exactly for an input that is empty or all whitespace.\<close>

lemma trim_empty_iff: "trim s = [] \<longleftrightarrow> whitespace_only s"
proof
  assume "trim s = []"
  then have "dropWhile isWhiteSpace (rev (dropWhile isWhiteSpace s)) = []"
    by (simp add: trim_def)
  then have "list_all isWhiteSpace (dropWhile isWhiteSpace s)"
    by (simp add: dropWhile_eq_Nil_conv list_all_iff)
  then have "dropWhile isWhiteSpace s = []" by (rule dropWhile_all_Nil)
  then show "whitespace_only s"
    by (simp add: dropWhile_eq_Nil_conv whitespace_only_def list_all_iff)
next
  assume "whitespace_only s"
  then have none_left: "dropWhile isWhiteSpace s = []"
    by (simp add: dropWhile_eq_Nil_conv whitespace_only_def list_all_iff)
  show "trim s = []" unfolding trim_def none_left by simp
qed

lemma handleSend_begin_Some:
  "handleSend_begin s = Some (t, s1) \<Longrightarrow>
     \<not> isSending s \<and> t = trim (message s) \<and> t \<noteq> [] \<and>
     s1 = s\<lparr>send_error := [], isSending := True,
            currentMessages := currentMessages s @ [\<lparr>role = User, msg_text = t\<rparr>], message := []\<rparr>"
  by (auto simp: handleSend_begin_def Let_def truthy_def split: if_splits)

lemma handleSend_settled_idle [simp]: "\<not> isSending (handleSend_settled t result s)"
  by (simp add: handleSend_settled_def handleSend_then_def handleSend_catch_def Let_def
      split: sum.splits)

lemma conversation_inv_step: "conversation_inv c \<Longrightarrow> conversation_inv (conversation_step c e)"
proof (cases e)
  case Submit
  assume inv: "conversation_inv c"
  show ?thesis
  proof (cases "handleSend_begin (view c)")
    case None
    with inv Submit show ?thesis by simp
  next
    case (Some p)
    obtain t s1 where p: "p = (t, s1)" by (cases p)
    from Some p handleSend_begin_Some [of "view c" t s1] inv Submit show ?thesis
      by (simp add: conversation_inv_def split: prod.splits)
  qed
next
  case (Settled answer)
  assume "conversation_inv c"
  with Settled show ?thesis
    by (cases "inflight c") (auto simp: conversation_inv_def split: prod.splits if_splits)
next
  case (Typed v)
  assume "conversation_inv c"
  with Typed show ?thesis by (simp add: conversation_inv_def onChange_def)
next
  case (HistoryProp h)
  assume "conversation_inv c"
  with HistoryProp show ?thesis by (simp add: conversation_inv_def history_effect_def)
qed

lemma conversation_run_snoc:
  "conversation_run w (evs @ [e]) = conversation_step (conversation_run w evs) e"
  by (simp add: conversation_run_def)

lemma conversation_inv_run: "conversation_inv (conversation_run w evs)"
proof (induction evs rule: rev_induct)
  case Nil
  show ?case
    by (simp add: conversation_run_def conversation_start_def conversation_inv_def
        ChatWindow_mount_def)
next
  case (snoc e evs)
  then show ?case by (simp add: conversation_run_snoc conversation_inv_step)
qed

lemma submit_starts_send:
  assumes "truthy (trim (message (view c)))" and "\<not> isSending (view c)"
  shows "conversation_step c Submit =
     c\<lparr>view := (view c)\<lparr>send_error := [], isSending := True,
            currentMessages := currentMessages (view c)
              @ [\<lparr>role = User, msg_text = trim (message (view c))\<rparr>],
            message := []\<rparr>,
       world := (world c)\<lparr>sent := sent (world c) @
          [requestInterceptor (world c)
             (post_config (js ''/chat/message'')
                (Some (sendMessage_body (trim (message (view c))))))]\<rparr>,
       inflight := inflight c @ [trim (message (view c))]\<rparr>"
  using assms by (simp add: handleSend_begin_def dispatch_def Let_def)

lemma settle_rejects:
  "\<forall>resp. answer \<noteq> Fulfilled resp \<Longrightarrow> \<exists>err. fst (settle answer w) = Inl err"
  by (cases answer) (simp_all add: settle_def Let_def)

text \<open>A run of \<open>handleSend\<close> is a submit followed at once by the settlement of its call.\<close>

lemma handleSend_as_steps:
  "handleSend net (s, w) =
     (case handleSend_begin s of
        None \<Rightarrow> (s, w)
      | Some (t, s1) \<Rightarrow>
          (let c1 = conversation_step \<lparr>view = s, world = w, inflight = []\<rparr> Submit;
               c2 = conversation_step c1 (Settled (net (last (sent (world c1)))))
           in (view c2, world c2)))"
  by (auto simp: handleSend_def chatApi_sendMessage_def ApiClient_post_def instance_request_def
      dispatch_def Let_def split: option.splits prod.splits)

lemmas conversation_defs = alice_conversation_def alice_world_def conversation_run_def
  conversation_start_def ChatWindow_mount_def handleSend_begin_def handleSend_settled_def
  handleSend_then_def handleSend_catch_def onChange_def dispatch_def settle_def
  responseErrorInterceptor_def requestInterceptor_def post_config_def sendMessage_body_def
  errorMessage_def truthy_def trim_def isWhiteSpace_def js_def Let_def

text \<open>
  Claim C4. For every sequence of events on the conversation view (submits, answers
  of the transport, typing, changes of the history prop), at most one send is in
  flight; a submit while a send is in flight changes nothing, and a submit with an
  empty or whitespace-only input changes nothing, so it starts no send.
\<close>

theorem single_send_in_flight:
  "length (inflight (conversation_run w evs)) \<le> 1
   \<and> (inflight (conversation_run w evs) \<noteq> [] \<longrightarrow>
        conversation_step (conversation_run w evs) Submit = conversation_run w evs)
   \<and> (whitespace_only (message (view c)) \<longrightarrow> conversation_step c Submit = c)"
proof -
  have inv: "conversation_inv (conversation_run w evs)" by (rule conversation_inv_run)
  have one: "length (inflight (conversation_run w evs)) \<le> 1"
    using inv by (simp add: conversation_inv_def split: if_splits)
  have busy: "conversation_step (conversation_run w evs) Submit = conversation_run w evs"
    if "inflight (conversation_run w evs) \<noteq> []"
  proof -
    from inv that have "isSending (view (conversation_run w evs))"
      by (auto simp: conversation_inv_def split: if_splits)
    then show ?thesis by (simp add: handleSend_begin_def Let_def)
  qed
  have blank: "conversation_step c Submit = c" if "whitespace_only (message (view c))"
  proof -
    from that have "trim (message (view c)) = []" by (simp add: trim_empty_iff)
    then show ?thesis by (simp add: handleSend_begin_def truthy_def)
  qed
  from one busy blank show ?thesis by blast
qed

text \<open>alice types " hi " and submits twice before any answer; then a submit of two
  blanks.\<close>

theorem single_send_in_flight_witness:
  "inflight (conversation_run alice_world [Typed (js '' hi ''), Submit]) = [js ''hi'']
   \<and> inflight (conversation_run alice_world [Typed (js '' hi ''), Submit, Submit]) = [js ''hi'']
   \<and> whitespace_only (message (view (alice_conversation\<lparr>view := onChange (js ''  '') (view alice_conversation)\<rparr>)))
   \<and> inflight (conversation_step
        (alice_conversation\<lparr>view := onChange (js ''  '') (view alice_conversation)\<rparr>) Submit) = []"
proof -
  let ?once = "conversation_run alice_world [Typed (js '' hi ''), Submit]"
  let ?blank = "alice_conversation\<lparr>view := onChange (js ''  '') (view alice_conversation)\<rparr>"
  have one: "inflight ?once = [js ''hi'']"
    by (simp add: conversation_defs)
  then have busy: "inflight ?once \<noteq> []" by simp
  have twice: "conversation_run alice_world [Typed (js '' hi ''), Submit, Submit]
      = conversation_step ?once Submit"
    by (simp add: conversation_run_def)
  have ws: "whitespace_only (message (view ?blank))"
    by (simp add: whitespace_only_def conversation_defs)
  from single_send_in_flight [of alice_world "[Typed (js '' hi ''), Submit]" ?blank] busy ws
  have "conversation_step ?once Submit = ?once" and "conversation_step ?blank Submit = ?blank"
    by blast+
  with one twice ws show ?thesis
    by (simp add: alice_conversation_def)
qed








text \<open>
  The rollback drops the last element of the list that is displayed when the call
  rejects. When the history prop changes while the call is pending, that element is
  the last message of the new history.
\<close>

lemma rollback_after_history_change:
  "currentMessages (view (conversation_step (conversation_step
        (conversation_step alice_conversation Submit) (HistoryProp (Some item)))
        (Settled NoResponse))) = butlast (messages item)"
  by (simp add: conversation_defs history_effect_def)

text \<open>
  Claim C10. When a submit starts a send, the trimmed input is the text of the user's
  message appended to the list, the value of \<open>message\<close> in the JSON body of the one
  request sent to /chat/message, and the input restored when the call rejects.
\<close>

theorem send_uses_trimmed_text:
  assumes "truthy (trim (message (view c)))" and "\<not> isSending (view c)" and "inflight c = []"
  shows "(let c1 = conversation_step c Submit; request = last (sent (world c1)) in
      last (currentMessages (view c1)) = \<lparr>role = User, msg_text = trim (message (view c))\<rparr>
      \<and> length (sent (world c1)) = Suc (length (sent (world c)))
      \<and> req_method request = POST \<and> req_url request = js ''/chat/message''
      \<and> req_body request = JsonBody (JObject [(js ''message'', JString (trim (message (view c))))])
      \<and> (\<forall>answer. (\<forall>resp. answer \<noteq> Fulfilled resp) \<longrightarrow>
            message (view (conversation_step c1 (Settled answer))) = trim (message (view c))))"
proof -
  define c1 where "c1 = conversation_step c Submit"
  have pending: "inflight c1 = [trim (message (view c))]"
    unfolding c1_def submit_starts_send [OF assms(1,2)] by (simp add: assms(3))
  have restored: "message (view (conversation_step c1 (Settled answer))) = trim (message (view c))"
    if "\<forall>resp. answer \<noteq> Fulfilled resp" for answer
  proof -
    from settle_rejects [OF that] obtain err where "fst (settle answer (world c1)) = Inl err" ..
    then show ?thesis
      by (auto simp: pending handleSend_settled_def handleSend_catch_def split: prod.splits)
  qed
  have request: "last (currentMessages (view c1)) = \<lparr>role = User, msg_text = trim (message (view c))\<rparr>
      \<and> length (sent (world c1)) = Suc (length (sent (world c)))
      \<and> req_method (last (sent (world c1))) = POST
      \<and> req_url (last (sent (world c1))) = js ''/chat/message''
      \<and> req_body (last (sent (world c1)))
          = JsonBody (JObject [(js ''message'', JString (trim (message (view c))))])"
    unfolding c1_def submit_starts_send [OF assms(1,2)]
    by (simp add: post_config_def sendMessage_body_def)
  from request restored show ?thesis
    unfolding Let_def c1_def [symmetric] by blast
qed

text \<open>alice's input " hi " is sent, shown and restored as "hi".\<close>

theorem send_uses_trimmed_text_witness:
  "truthy (trim (message (view alice_conversation)))
   \<and> \<not> isSending (view alice_conversation) \<and> inflight alice_conversation = []
   \<and> message (view alice_conversation) = js '' hi ''
   \<and> req_body (last (sent (world (conversation_step alice_conversation Submit))))
       = JsonBody (JObject [(js ''message'', JString (js ''hi''))])
   \<and> last (currentMessages (view (conversation_step alice_conversation Submit)))
       = \<lparr>role = User, msg_text = js ''hi''\<rparr>
   \<and> message (view (conversation_step (conversation_step alice_conversation Submit)
        (Settled (ErrorStatus 500 \<lparr>data_detail = None, data_message = None\<rparr>)))) = js ''hi''"
proof -
  have nonempty: "truthy (trim (message (view alice_conversation)))"
    by (simp add: conversation_defs)
  have idle: "\<not> isSending (view alice_conversation)"
    by (simp add: alice_conversation_def)
  have none: "inflight alice_conversation = []"
    by (simp add: alice_conversation_def)
  have trimmed: "trim (message (view alice_conversation)) = js ''hi''"
    by (simp add: conversation_defs)
  have raw: "message (view alice_conversation) = js '' hi ''"
    by (simp add: alice_conversation_def)
  have no_reply: "\<forall>resp. (ErrorStatus 500 \<lparr>data_detail = None, data_message = None\<rparr>
      :: SendResp NetResult) \<noteq> Fulfilled resp" by simp
  note at_alice = send_uses_trimmed_text [OF nonempty idle none, unfolded Let_def trimmed]
  from at_alice have sent_trimmed:
    "req_body (last (sent (world (conversation_step alice_conversation Submit))))
       = JsonBody (JObject [(js ''message'', JString (js ''hi''))])
     \<and> last (currentMessages (view (conversation_step alice_conversation Submit)))
       = \<lparr>role = User, msg_text = js ''hi''\<rparr>"
    by blast
  from at_alice no_reply have restored:
    "message (view (conversation_step (conversation_step alice_conversation Submit)
        (Settled (ErrorStatus 500 \<lparr>data_detail = None, data_message = None\<rparr>)))) = js ''hi''"
    by blast
  from nonempty idle none raw sent_trimmed restored show ?thesis
    by (simp del: conversation_step.simps)
qed


section \<open>Properties of the history view\<close>

lemma mset_insertInOrder: "mset (insertInOrder cmp x ys) = add_mset x (mset ys)"
  by (induction ys) auto

lemma mset_Array_sort: "mset (Array_sort cmp xs) = mset xs"
  by (induction xs) (auto simp: mset_insertInOrder)

lemma set_Array_sort: "set (Array_sort cmp xs) = set xs"
  using mset_Array_sort [of cmp xs] by (metis set_mset_mset)

lemma set_insertInOrder: "set (insertInOrder cmp x ys) = insert x (set ys)"
  using mset_insertInOrder [of cmp x ys] by (metis set_mset_mset set_mset_add_mset_insert)

lemma mset_sortHistory: "mset (sortHistory getTime xs) = mset xs"
  by (simp add: sortHistory_def mset_Array_sort)

text \<open>On valid timestamps the comparator is the difference of the time values.\<close>

lemma SortCompare_valid:
  "getTime (timestamp a) \<noteq> None \<Longrightarrow> getTime (timestamp b) \<noteq> None \<Longrightarrow>
   SortCompare (compareByTimestampDesc getTime) a b = time_of getTime b - time_of getTime a"
  by (auto simp: SortCompare_def compareByTimestampDesc_def time_of_def)

lemma ordered_insertInOrder:
  assumes "getTime (timestamp x) \<noteq> None" and "\<forall>y\<in>set ys. getTime (timestamp y) \<noteq> None"
    and "sorted_wrt (\<lambda>a b. time_of getTime b \<le> time_of getTime a) ys"
  shows "sorted_wrt (\<lambda>a b. time_of getTime b \<le> time_of getTime a)
           (insertInOrder (compareByTimestampDesc getTime) x ys)"
  using assms
proof (induction ys)
  case Nil
  then show ?case by simp
next
  case (Cons y ys)
  then show ?case
    by (auto simp: SortCompare_valid set_insertInOrder)
qed

lemma ordered_sortHistory:
  "valid_timestamps getTime xs \<Longrightarrow>
   sorted_wrt (\<lambda>a b. time_of getTime b \<le> time_of getTime a) (sortHistory getTime xs)"
proof (induction xs)
  case Nil
  then show ?case by (simp add: sortHistory_def)
next
  case (Cons x xs)
  then have "sorted_wrt (\<lambda>a b. time_of getTime b \<le> time_of getTime a) (sortHistory getTime xs)"
    by (simp add: valid_timestamps_def)
  moreover from Cons.prems have "getTime (timestamp x) \<noteq> None"
    and "\<forall>y\<in>set (Array_sort (compareByTimestampDesc getTime) xs). getTime (timestamp y) \<noteq> None"
    by (simp_all add: valid_timestamps_def set_Array_sort list_all_iff)
  ultimately show ?case
    by (simp add: sortHistory_def ordered_insertInOrder)
qed

lemma time_ge_valid:
  "getTime (timestamp a) \<noteq> None \<Longrightarrow> getTime (timestamp b) \<noteq> None \<Longrightarrow>
   time_ge (getTime (timestamp a)) (getTime (timestamp b))
     \<longleftrightarrow> time_of getTime b \<le> time_of getTime a"
  by (auto simp: time_ge_def time_of_def)

lemma descending_of_ordered:
  "\<forall>x\<in>set xs. getTime (timestamp x) \<noteq> None \<Longrightarrow>
   sorted_wrt (\<lambda>a b. time_of getTime b \<le> time_of getTime a) xs \<Longrightarrow> descending getTime xs"
  by (induction getTime xs rule: descending.induct) (auto simp: time_ge_valid)

lemma descending_sortHistory:
  assumes "valid_timestamps getTime xs"
  shows "descending getTime (sortHistory getTime xs)"
proof -
  have "\<forall>x\<in>set (sortHistory getTime xs). getTime (timestamp x) \<noteq> None"
    using assms by (simp add: sortHistory_def set_Array_sort valid_timestamps_def list_all_iff)
  then show ?thesis
    using ordered_sortHistory [OF assms] by (rule descending_of_ordered)
qed

lemma first_is_most_recent:
  assumes "valid_timestamps getTime xs" and "sortHistory getTime xs = first # others"
  shows "\<forall>item\<in>set xs. time_ge (getTime (timestamp first)) (getTime (timestamp item))"
proof -
  have members: "set xs = insert first (set others)"
    using assms(2) set_Array_sort [of "compareByTimestampDesc getTime" xs]
    by (simp add: sortHistory_def)
  have valid: "\<forall>x\<in>set xs. getTime (timestamp x) \<noteq> None"
    using assms(1) by (simp add: valid_timestamps_def list_all_iff)
  have "\<forall>y\<in>set others. time_of getTime y \<le> time_of getTime first"
    using ordered_sortHistory [OF assms(1)] assms(2) by simp
  then have "\<forall>item\<in>set xs. time_of getTime item \<le> time_of getTime first"
    by (auto simp: members)
  with valid members show ?thesis
    by (auto simp: time_ge_valid)
qed

lemma getHistory_answers:
  "answers net res \<Longrightarrow> chatApi_getHistory net w =
     (Inr res, w\<lparr>sent := sent w @ [requestInterceptor w (get_config (js ''/chat/history''))]\<rparr>)"
  by (simp add: chatApi_getHistory_def ApiClient_get_def instance_request_answers)

lemma newChat_answers:
  "answers net created \<Longrightarrow> chatApi_newChat net w =
     (Inr created, w\<lparr>sent := sent w @
        [requestInterceptor w (post_config (js ''/chat/new'') (Some (JObject [])))]\<rparr>)"
  by (simp add: chatApi_newChat_def ApiClient_post_def instance_request_answers)

lemma closeChat_answers:
  "answers net cr \<Longrightarrow> chatApi_closeChat net chatId w =
     (Inr cr, w\<lparr>sent := sent w @
        [requestInterceptor w (post_config (js ''/chat/close'') (Some (closeChat_body chatId)))]\<rparr>)"
  by (simp add: chatApi_closeChat_def ApiClient_post_def instance_request_answers)

lemma loadHistory_fetched:
  "resolved (chatApi_getHistory netHistory w) res \<Longrightarrow>
   history (fst (loadHistory getTime netHistory (s, w))) = sortHistory getTime (items res)"
  by (cases "chatApi_getHistory netHistory w")
    (simp add: resolved_def loadHistory_def Let_def split: list.splits)

lemma handleNewChat_succeeds:
  assumes "newChat_succeeds netClose netNew netHistory s w created res"
  shows "fst (handleNewChat getTime netClose netNew netHistory (s, w)) =
     s\<lparr>isActionLoading := False, page_error := [], history := sortHistory getTime (items res),
       selectedChatId := Some (new_chat_id created)\<rparr>"
proof -
  obtain r1 w1 where c1: "chatApi_closeChat netClose (selectedChatId s) w = (r1, w1)"
    by (cases "chatApi_closeChat netClose (selectedChatId s) w")
  obtain r2 w2 where c2: "chatApi_newChat netNew w1 = (r2, w2)"
    by (cases "chatApi_newChat netNew w1")
  obtain r3 w3 where c3: "chatApi_getHistory netHistory w2 = (r3, w3)"
    by (cases "chatApi_getHistory netHistory w2")
  from assms c1 c2 c3 obtain cr where "r1 = Inr cr" and "r2 = Inr created" and "r3 = Inr res"
    by (auto simp: newChat_succeeds_def resolved_def Let_def)
  with c1 c2 c3 show ?thesis
    by (simp add: handleNewChat_def Let_def)
qed

lemma handleCloseChat_succeeds:
  assumes "closeChat_succeeds netClose netHistory s w res"
  shows "fst (handleCloseChat getTime netClose netHistory (s, w)) =
     s\<lparr>isActionLoading := False, page_error := [], history := sortHistory getTime (items res),
       selectedChatId := (case sortHistory getTime (items res) of [] \<Rightarrow> None
                          | first # _ \<Rightarrow> Some (chat_id first))\<rparr>"
proof -
  obtain r1 w1 where c1: "chatApi_closeChat netClose (selectedChatId s) w = (r1, w1)"
    by (cases "chatApi_closeChat netClose (selectedChatId s) w")
  obtain r2 w2 where c2: "chatApi_getHistory netHistory w1 = (r2, w2)"
    by (cases "chatApi_getHistory netHistory w1")
  from assms c1 c2 obtain cr where "r1 = Inr cr" and "r2 = Inr res"
    and "truthy_opt (selectedChatId s)"
    by (auto simp: closeChat_succeeds_def resolved_def Let_def)
  with c1 c2 show ?thesis
    by (simp add: handleCloseChat_def Let_def)
qed

lemma newChat_succeeds_answers:
  "answers netClose cr \<Longrightarrow> answers netNew created \<Longrightarrow> answers netHistory res \<Longrightarrow>
   newChat_succeeds netClose netNew netHistory s w created res"
  by (simp add: newChat_succeeds_def resolved_def closeChat_answers newChat_answers
      getHistory_answers Let_def)

lemma closeChat_succeeds_answers:
  "answers netClose cr \<Longrightarrow> answers netHistory res \<Longrightarrow> truthy_opt (selectedChatId s) \<Longrightarrow>
   closeChat_succeeds netClose netHistory s w res"
  by (simp add: closeChat_succeeds_def resolved_def closeChat_answers getHistory_answers Let_def)

lemma sent_closeChat:
  "chatApi_closeChat net chatId w = (r, w') \<Longrightarrow>
   sent w' = sent w @
     [requestInterceptor w (post_config (js ''/chat/close'') (Some (closeChat_body chatId)))]"
  using sent_instance_request
    [of net "post_config (js ''/chat/close'') (Some (closeChat_body chatId))" w]
  by (simp add: chatApi_closeChat_def ApiClient_post_def)

lemma sent_newChat:
  "chatApi_newChat net w = (r, w') \<Longrightarrow>
   sent w' = sent w @ [requestInterceptor w (post_config (js ''/chat/new'') (Some (JObject [])))]"
  using sent_instance_request [of net "post_config (js ''/chat/new'') (Some (JObject []))" w]
  by (simp add: chatApi_newChat_def ApiClient_post_def)

lemma sent_getHistory:
  "chatApi_getHistory net w = (r, w') \<Longrightarrow>
   sent w' = sent w @ [requestInterceptor w (get_config (js ''/chat/history''))]"
  using sent_instance_request [of net "get_config (js ''/chat/history'')" w]
  by (simp add: chatApi_getHistory_def ApiClient_get_def)

lemma example_sorted:
  "sortHistory example_getTime example_items =
     [\<lparr>chat_id = js ''s3'', messages = [], timestamp = js ''2024-01-03T00:00:00.000Z''\<rparr>,
      \<lparr>chat_id = js ''s2'', messages = [], timestamp = js ''2024-01-02T00:00:00.000Z''\<rparr>,
      \<lparr>chat_id = js ''abc123'', messages = [], timestamp = js ''2024-01-01T00:00:00.000Z''\<rparr>]"
  by (simp add: sortHistory_def example_items_def example_getTime_def SortCompare_def
      compareByTimestampDesc_def js_def)

lemma example_valid: "valid_timestamps example_getTime example_items"
  by (simp add: valid_timestamps_def example_items_def example_getTime_def js_def)

text \<open>
  Claim C6. Whenever the history is fetched (by loadHistory, by a new chat whose calls
  resolve, by a close chat whose calls resolve), the list shown is the sorted list of
  the server's items: it has the same items, and when the timestamps of the items are
  dates each item's time value is at least the next item's.
\<close>

theorem history_sorted_descending:
  "(resolved (chatApi_getHistory netHistory w) res \<longrightarrow>
      history (fst (loadHistory getTime netHistory (s, w))) = sortHistory getTime (items res))
   \<and> (newChat_succeeds netClose netNew netHistory s w created res \<longrightarrow>
      history (fst (handleNewChat getTime netClose netNew netHistory (s, w)))
        = sortHistory getTime (items res))
   \<and> (closeChat_succeeds netClose netHistory s w res \<longrightarrow>
      history (fst (handleCloseChat getTime netClose netHistory (s, w)))
        = sortHistory getTime (items res))
   \<and> mset (sortHistory getTime (items res)) = mset (items res)
   \<and> (valid_timestamps getTime (items res) \<longrightarrow>
        descending getTime (sortHistory getTime (items res)))"
  by (simp add: loadHistory_fetched handleNewChat_succeeds handleCloseChat_succeeds
      mset_sortHistory descending_sortHistory)

text \<open>The three example sessions, listed out of order by the server, are shown newest
  first.\<close>

theorem history_sorted_descending_witness:
  "valid_timestamps example_getTime example_items
   \<and> resolved (chatApi_getHistory (\<lambda>req. Fulfilled \<lparr>items = example_items\<rparr>) alice_world)
        \<lparr>items = example_items\<rparr>
   \<and> map chat_id (history (fst (loadHistory example_getTime
        (\<lambda>req. Fulfilled \<lparr>items = example_items\<rparr>) (example_page, alice_world))))
       = [js ''s3'', js ''s2'', js ''abc123'']
   \<and> map chat_id (history (fst (handleCloseChat example_getTime
        (\<lambda>req. Fulfilled \<lparr>closed = True, close_error = None\<rparr>)
        (\<lambda>req. Fulfilled \<lparr>items = example_items\<rparr>) (example_page, alice_world))))
       = [js ''s3'', js ''s2'', js ''abc123'']
   \<and> map chat_id (history (fst (handleNewChat example_getTime
        (\<lambda>req. Fulfilled \<lparr>closed = True, close_error = None\<rparr>)
        (\<lambda>req. Fulfilled \<lparr>new_chat_id = js ''abc123''\<rparr>)
        (\<lambda>req. Fulfilled \<lparr>items = example_items\<rparr>) (example_page, alice_world))))
       = [js ''s3'', js ''s2'', js ''abc123'']
   \<and> descending example_getTime (sortHistory example_getTime example_items)"
proof -
  let ?netClose = "\<lambda>req. Fulfilled \<lparr>closed = True, close_error = None\<rparr> :: CloseResp NetResult"
  let ?netNew = "\<lambda>req. Fulfilled \<lparr>new_chat_id = js ''abc123''\<rparr> :: NewChatResp NetResult"
  let ?netHistory = "\<lambda>req. Fulfilled \<lparr>items = example_items\<rparr> :: ChatHistoryResponse NetResult"
  have selected: "truthy_opt (selectedChatId example_page)"
    by (simp add: example_page_def truthy_opt_def truthy_def js_def)
  have fetch: "resolved (chatApi_getHistory ?netHistory alice_world) \<lparr>items = example_items\<rparr>"
    by (simp add: resolved_def getHistory_answers [OF answers_const])
  have new: "newChat_succeeds ?netClose ?netNew ?netHistory example_page alice_world
      \<lparr>new_chat_id = js ''abc123''\<rparr> \<lparr>items = example_items\<rparr>"
    by (rule newChat_succeeds_answers [OF answers_const answers_const answers_const])
  have close: "closeChat_succeeds ?netClose ?netHistory example_page alice_world
      \<lparr>items = example_items\<rparr>"
    by (rule closeChat_succeeds_answers [OF answers_const answers_const selected])
  from history_sorted_descending
    [where netHistory = ?netHistory and netClose = ?netClose and netNew = ?netNew
      and w = alice_world and s = example_page and getTime = example_getTime
      and res = "\<lparr>items = example_items\<rparr>" and created = "\<lparr>new_chat_id = js ''abc123''\<rparr>"]
    fetch new close example_valid
  show ?thesis
    by (simp add: example_sorted)
qed

text \<open>
  Claim C7. When the calls of a new chat resolve, the selected session is the id that
  newChat returned, whatever the order of the refreshed history. When the calls of a
  close chat resolve, the selected session is the first of the refreshed, sorted
  history, which is a session of the server's list and, for timestamps that are
  dates, one whose time value is at least that of every other; it is none when the
  server's list is empty.
\<close>

theorem selection_after_new_and_close:
  "(newChat_succeeds netClose netNew netHistory s w created res \<longrightarrow>
      selectedChatId (fst (handleNewChat getTime netClose netNew netHistory (s, w)))
        = Some (new_chat_id created))
   \<and> (closeChat_succeeds netClose netHistory s w res \<longrightarrow>
        (case sortHistory getTime (items res) of
           [] \<Rightarrow> items res = []
                \<and> selectedChatId (fst (handleCloseChat getTime netClose netHistory (s, w))) = None
         | first # others \<Rightarrow>
             selectedChatId (fst (handleCloseChat getTime netClose netHistory (s, w)))
               = Some (chat_id first)
             \<and> first \<in> set (items res)
             \<and> (valid_timestamps getTime (items res) \<longrightarrow>
                  (\<forall>item\<in>set (items res).
                     time_ge (getTime (timestamp first)) (getTime (timestamp item))))))"
proof -
  have new: "selectedChatId (fst (handleNewChat getTime netClose netNew netHistory (s, w)))
      = Some (new_chat_id created)"
    if "newChat_succeeds netClose netNew netHistory s w created res"
    by (simp add: handleNewChat_succeeds [OF that])
  have close: "(case sortHistory getTime (items res) of
            [] \<Rightarrow> items res = []
                 \<and> selectedChatId (fst (handleCloseChat getTime netClose netHistory (s, w))) = None
          | first # others \<Rightarrow>
              selectedChatId (fst (handleCloseChat getTime netClose netHistory (s, w)))
                = Some (chat_id first)
              \<and> first \<in> set (items res)
              \<and> (valid_timestamps getTime (items res) \<longrightarrow>
                   (\<forall>item\<in>set (items res).
                      time_ge (getTime (timestamp first)) (getTime (timestamp item)))))"
    if ok: "closeChat_succeeds netClose netHistory s w res"
  proof (cases "sortHistory getTime (items res)")
    case Nil
    then have "mset (items res) = {#}"
      using mset_sortHistory [of getTime "items res"] by simp
    with Nil show ?thesis
      by (simp add: handleCloseChat_succeeds [OF ok])
  next
    case (Cons first others)
    have "first \<in> set (items res)"
      using Cons set_Array_sort [of "compareByTimestampDesc getTime" "items res"]
      by (auto simp: sortHistory_def)
    with Cons first_is_most_recent [of getTime "items res" first others] show ?thesis
      by (simp add: handleCloseChat_succeeds [OF ok])
  qed
  from new close show ?thesis by blast
qed

text \<open>newChat returns abc123, the oldest of the three example sessions: it is selected
  although s3 is first in the history; a close chat selects s3.\<close>

theorem selection_after_new_and_close_witness:
  "newChat_succeeds (\<lambda>req. Fulfilled \<lparr>closed = True, close_error = None\<rparr>)
        (\<lambda>req. Fulfilled \<lparr>new_chat_id = js ''abc123''\<rparr>)
        (\<lambda>req. Fulfilled \<lparr>items = example_items\<rparr>) example_page alice_world
        \<lparr>new_chat_id = js ''abc123''\<rparr> \<lparr>items = example_items\<rparr>
   \<and> selectedChatId (fst (handleNewChat example_getTime
        (\<lambda>req. Fulfilled \<lparr>closed = True, close_error = None\<rparr>)
        (\<lambda>req. Fulfilled \<lparr>new_chat_id = js ''abc123''\<rparr>)
        (\<lambda>req. Fulfilled \<lparr>items = example_items\<rparr>) (example_page, alice_world)))
     = Some (js ''abc123'')
   \<and> map chat_id (take 1 (history (fst (handleNewChat example_getTime
        (\<lambda>req. Fulfilled \<lparr>closed = True, close_error = None\<rparr>)
        (\<lambda>req. Fulfilled \<lparr>new_chat_id = js ''abc123''\<rparr>)
        (\<lambda>req. Fulfilled \<lparr>items = example_items\<rparr>) (example_page, alice_world)))))
     = [js ''s3'']
   \<and> closeChat_succeeds (\<lambda>req. Fulfilled \<lparr>closed = True, close_error = None\<rparr>)
        (\<lambda>req. Fulfilled \<lparr>items = example_items\<rparr>) example_page alice_world
        \<lparr>items = example_items\<rparr>
   \<and> valid_timestamps example_getTime example_items
   \<and> selectedChatId (fst (handleCloseChat example_getTime
        (\<lambda>req. Fulfilled \<lparr>closed = True, close_error = None\<rparr>)
        (\<lambda>req. Fulfilled \<lparr>items = example_items\<rparr>) (example_page, alice_world)))
     = Some (js ''s3'')"
proof -
  let ?netClose = "\<lambda>req. Fulfilled \<lparr>closed = True, close_error = None\<rparr> :: CloseResp NetResult"
  let ?netNew = "\<lambda>req. Fulfilled \<lparr>new_chat_id = js ''abc123''\<rparr> :: NewChatResp NetResult"
  let ?netHistory = "\<lambda>req. Fulfilled \<lparr>items = example_items\<rparr> :: ChatHistoryResponse NetResult"
  have selected: "truthy_opt (selectedChatId example_page)"
    by (simp add: example_page_def truthy_opt_def truthy_def js_def)
  have new: "newChat_succeeds ?netClose ?netNew ?netHistory example_page alice_world
      \<lparr>new_chat_id = js ''abc123''\<rparr> \<lparr>items = example_items\<rparr>"
    by (rule newChat_succeeds_answers [OF answers_const answers_const answers_const])
  have close: "closeChat_succeeds ?netClose ?netHistory example_page alice_world
      \<lparr>items = example_items\<rparr>"
    by (rule closeChat_succeeds_answers [OF answers_const answers_const selected])
  have shown: "history (fst (handleNewChat example_getTime ?netClose ?netNew ?netHistory
        (example_page, alice_world))) = sortHistory example_getTime example_items"
    by (simp add: handleNewChat_succeeds [OF new])
  from selection_after_new_and_close
    [where netHistory = ?netHistory and netClose = ?netClose and netNew = ?netNew
      and w = alice_world and s = example_page and getTime = example_getTime
      and res = "\<lparr>items = example_items\<rparr>" and created = "\<lparr>new_chat_id = js ''abc123''\<rparr>"]
    new close example_valid shown
  show ?thesis
    by (simp add: example_sorted)
qed

text \<open>
  Claim C9. The requests a new chat issues are, in this order, a POST to /chat/close,
  then a POST to /chat/new, then the history request, cut short at the first call that
  rejects. The first is always the close call; its body holds the selected session id,
  or null when none is selected. When the close call resolves, the call to newChat
  follows it.
\<close>

theorem newChat_closes_current_first:
  "(let w' = snd (handleNewChat getTime netClose netNew netHistory (s, w));
        issued = drop (length (sent w)) (sent w') in
      sent w' = sent w @ issued
      \<and> map req_url issued \<in>
          {[js ''/chat/close''], [js ''/chat/close'', js ''/chat/new''],
           [js ''/chat/close'', js ''/chat/new'', js ''/chat/history'']}
      \<and> req_method (hd issued) = POST
      \<and> req_body (hd issued) =
          JsonBody (JObject [(js ''chat_id'',
            (case selectedChatId s of None \<Rightarrow> JNull | Some i \<Rightarrow> JString i))])
      \<and> (\<forall>cr. resolved (chatApi_closeChat netClose (selectedChatId s) w) cr \<longrightarrow>
            map req_url (take 2 issued) = [js ''/chat/close'', js ''/chat/new'']
            \<and> req_method (issued ! 1) = POST \<and> req_body (issued ! 1) = JsonBody (JObject [])))"
proof -
  obtain r1 w1 where c1: "chatApi_closeChat netClose (selectedChatId s) w = (r1, w1)"
    by (cases "chatApi_closeChat netClose (selectedChatId s) w")
  obtain r2 w2 where c2: "chatApi_newChat netNew w1 = (r2, w2)"
    by (cases "chatApi_newChat netNew w1")
  obtain r3 w3 where c3: "chatApi_getHistory netHistory w2 = (r3, w3)"
    by (cases "chatApi_getHistory netHistory w2")
  note s1 = sent_closeChat [OF c1] and s2 = sent_newChat [OF c2] and s3 = sent_getHistory [OF c3]
  show ?thesis
    by (cases r1; cases r2; cases r3)
      (auto simp: handleNewChat_def c1 c2 c3 s1 s2 s3 Let_def post_config_def get_config_def
        closeChat_body_def resolved_def)
qed

text \<open>With s3 selected, a new chat closes s3, then creates the session, then fetches
  the history.\<close>

theorem newChat_closes_current_first_witness:
  "resolved (chatApi_closeChat (\<lambda>req. Fulfilled \<lparr>closed = True, close_error = None\<rparr>)
        (selectedChatId example_page) alice_world) \<lparr>closed = True, close_error = None\<rparr>
   \<and> map req_url (take 2 (sent (snd (handleNewChat example_getTime
        (\<lambda>req. Fulfilled \<lparr>closed = True, close_error = None\<rparr>)
        (\<lambda>req. Fulfilled \<lparr>new_chat_id = js ''abc123''\<rparr>)
        (\<lambda>req. Fulfilled \<lparr>items = example_items\<rparr>) (example_page, alice_world)))))
     = [js ''/chat/close'', js ''/chat/new'']
   \<and> req_body (hd (sent (snd (handleNewChat example_getTime
        (\<lambda>req. Fulfilled \<lparr>closed = True, close_error = None\<rparr>)
        (\<lambda>req. Fulfilled \<lparr>new_chat_id = js ''abc123''\<rparr>)
        (\<lambda>req. Fulfilled \<lparr>items = example_items\<rparr>) (example_page, alice_world)))))
     = JsonBody (JObject [(js ''chat_id'', JString (js ''s3''))])"
proof -
  have resolves: "resolved (chatApi_closeChat (\<lambda>req. Fulfilled \<lparr>closed = True, close_error = None\<rparr>)
        (selectedChatId example_page) alice_world) \<lparr>closed = True, close_error = None\<rparr>"
    by (simp add: resolved_def closeChat_answers [OF answers_const])
  have nothing_sent: "sent alice_world = []" by (simp add: alice_world_def)
  have selected: "selectedChatId example_page = Some (js ''s3'')"
    by (simp add: example_page_def)
  from newChat_closes_current_first
    [where w = alice_world and getTime = example_getTime and s = example_page
      and netClose = "\<lambda>req. Fulfilled \<lparr>closed = True, close_error = None\<rparr>"
      and netNew = "\<lambda>req. Fulfilled \<lparr>new_chat_id = js ''abc123''\<rparr>"
      and netHistory = "\<lambda>req. Fulfilled \<lparr>items = example_items\<rparr>"]
    resolves
  show ?thesis
    unfolding Let_def nothing_sent selected by auto
qed

end
